theory Spec2Isabelle
  imports Complex_Main "HOL-Library.Multiset"
begin

section \<open>The ROI calculator: field derivation and metrics\<close>

text \<open>
  The calculator is TypeScript. Its \<^verbatim>\<open>number\<close> is modelled as an exact \<^typ>\<open>real\<close>, so the
  theorems below speak about the arithmetic the code writes down, not about the rounding of
  IEEE doubles. \<^verbatim>\<open>Math.round\<close> rounds to the nearest integer with ties towards plus infinity,
  which is \<^const>\<open>round\<close>; \<^verbatim>\<open>Math.ceil\<close> is \<^const>\<open>ceiling\<close>; \<^verbatim>\<open>Math.min\<close> and
  \<^verbatim>\<open>Math.max\<close> are \<^const>\<open>min\<close> and \<^const>\<open>max\<close>.
\<close>

subsection \<open>Data model (roi-calculator, second document of main.tsx)\<close>

text \<open>
  \<^verbatim>\<open>baseInputs\<close> has eight fields, and \<^verbatim>\<open>CalculationInputs\<close> has the same eight and nine
  more: the second record extends the first, as the spread \<^verbatim>\<open>{...base, ...}\<close> does.
\<close>

record BaseInputs =
  employeeCount :: real
  averageIncidentResponseTime :: real
  falsePositiveRate :: real
  pricePerSecurityIncident :: real
  legacySIEMPricePerGB :: real
  stellarXDRCostPerGB :: real
  logVolumeIncidentRatio :: real
  switchFromLegacySIEM :: bool

record CalculationInputs = BaseInputs +
  securityIncidentsPerMonth :: real
  humanSOCAnalysts :: real
  humanSOCManager :: real
  humanSOCEngineer :: real
  humanSOCDirector :: real
  monthlyLogVolumeGB :: real
  stellarXDRPlatformCosts :: real
  siemLicensingCosts :: real

record CalculationResults =
  humanSOCTotalCost :: real
  autonomousSOCTotalCost :: real
  adjustedAnnualSOCCost :: real
  platformSavings :: real
  annualSavings :: real
  roiPercentage :: real
  paybackPeriod :: real
  efficiencyImprovement :: real
  incidentResponseImprovement :: real

definition baseInputs :: BaseInputs where
  "baseInputs =
     \<lparr> employeeCount = 500,
       averageIncidentResponseTime = 4,
       falsePositiveRate = 90,
       pricePerSecurityIncident = 3,
       legacySIEMPricePerGB = 3,
       stellarXDRCostPerGB = 2,
       logVolumeIncidentRatio = 3 / 2,
       switchFromLegacySIEM = True \<rparr>"

subsection \<open>calculateComputedFields\<close>

definition calculateComputedFields :: "BaseInputs \<Rightarrow> CalculationInputs" where
  "calculateComputedFields base =
     (let ratio = 2400 / 500 :: real;
          securityIncidentsPerMonth' = real_of_int (round (employeeCount base * ratio));
          monthlyLogVolumeGB' =
            real_of_int (round (securityIncidentsPerMonth' * logVolumeIncidentRatio base));
          stellarXDRPlatformCosts' = monthlyLogVolumeGB' * stellarXDRCostPerGB base * 12;
          siemLicensingCosts' = monthlyLogVolumeGB' * legacySIEMPricePerGB base * 12
      in \<lparr> employeeCount = employeeCount base,
           averageIncidentResponseTime = averageIncidentResponseTime base,
           falsePositiveRate = falsePositiveRate base,
           pricePerSecurityIncident = pricePerSecurityIncident base,
           legacySIEMPricePerGB = legacySIEMPricePerGB base,
           stellarXDRCostPerGB = stellarXDRCostPerGB base,
           logVolumeIncidentRatio = logVolumeIncidentRatio base,
           switchFromLegacySIEM = switchFromLegacySIEM base,
           securityIncidentsPerMonth = securityIncidentsPerMonth',
           humanSOCAnalysts = real_of_int \<lceil>securityIncidentsPerMonth' / 1000\<rceil>,
           humanSOCManager = real_of_int \<lceil>securityIncidentsPerMonth' / 3000\<rceil>,
           humanSOCEngineer = real_of_int \<lceil>securityIncidentsPerMonth' / 3000\<rceil>,
           humanSOCDirector = real_of_int \<lceil>securityIncidentsPerMonth' / 6000\<rceil>,
           monthlyLogVolumeGB = monthlyLogVolumeGB',
           stellarXDRPlatformCosts = stellarXDRPlatformCosts',
           siemLicensingCosts = siemLicensingCosts' \<rparr>)"

definition defaultInputs :: CalculationInputs where
  "defaultInputs = calculateComputedFields baseInputs"

subsection \<open>calculateROI\<close>

definition calculateEfficiencyImprovement :: "CalculationInputs \<Rightarrow> real" where
  "calculateEfficiencyImprovement inputs =
     (let baseEfficiency = 38 :: real;
          falsePositiveImpact = min (falsePositiveRate inputs * (2 / 10)) 15;
          responseTimeImpact = min (averageIncidentResponseTime inputs * 3) 25;
          oneTiBInGB = 1024 :: real;
          excessLogVolume = max 0 (monthlyLogVolumeGB inputs - oneTiBInGB);
          logVolumeImpact = min (excessLogVolume * (1 / 1000)) 15;
          totalEfficiency =
            baseEfficiency + falsePositiveImpact + responseTimeImpact + logVolumeImpact
      in min totalEfficiency 80)"

definition calculateIncidentResponseImprovement :: "CalculationInputs \<Rightarrow> real" where
  "calculateIncidentResponseImprovement inputs =
     (let baseImprovement = 45 :: real;
          responseTimeImpact = min (averageIncidentResponseTime inputs * 2) 15;
          falsePositiveImpact = min (falsePositiveRate inputs * (15 / 100)) 8;
          totalImprovement = baseImprovement + responseTimeImpact + falsePositiveImpact
      in min totalImprovement 80)"

definition autonomousSOCAnnualCost :: "CalculationInputs \<Rightarrow> real" where
  "autonomousSOCAnnualCost inputs =
     (let autonomousSOCMonthlyCost =
            securityIncidentsPerMonth inputs * pricePerSecurityIncident inputs
      in autonomousSOCMonthlyCost * 12)"

definition calculateROI :: "CalculationInputs \<Rightarrow> CalculationResults" where
  "calculateROI inputs =
     (let analystSalary = 85000 :: real;
          managerSalary = 120000 :: real;
          engineerSalary = 150000 :: real;
          directorSalary = 200000 :: real;
          humanSOCPersonnelCost =
            humanSOCAnalysts inputs * analystSalary +
            humanSOCManager inputs * managerSalary +
            humanSOCEngineer inputs * engineerSalary +
            humanSOCDirector inputs * directorSalary;
          humanSOCTotalCost' = humanSOCPersonnelCost + siemLicensingCosts inputs;
          autonomousSOCAnnualCost' = autonomousSOCAnnualCost inputs;
          efficiencyImprovement' = calculateEfficiencyImprovement inputs;
          incidentResponseImprovement' = calculateIncidentResponseImprovement inputs;
          adjustedAnnualSOCCost' = humanSOCTotalCost' * (1 - efficiencyImprovement' / 100);
          platformSavings' = siemLicensingCosts inputs - stellarXDRPlatformCosts inputs;
          annualSavings' =
            humanSOCTotalCost' - (adjustedAnnualSOCCost' + autonomousSOCAnnualCost')
              + platformSavings';
          roiPercentage' =
            (if autonomousSOCAnnualCost' = 0 then 0
             else (annualSavings' / autonomousSOCAnnualCost') * 100);
          paybackPeriod' = 0
      in \<lparr> humanSOCTotalCost = humanSOCTotalCost',
           autonomousSOCTotalCost = autonomousSOCAnnualCost',
           adjustedAnnualSOCCost = adjustedAnnualSOCCost',
           platformSavings = platformSavings',
           annualSavings = annualSavings',
           roiPercentage = roiPercentage',
           paybackPeriod = paybackPeriod',
           efficiencyImprovement = efficiencyImprovement',
           incidentResponseImprovement = incidentResponseImprovement' \<rparr>)"

subsection \<open>handleInputChange\<close>

text \<open>
  The handler takes the name of a field and a value of type
  \<^verbatim>\<open>string | number | boolean\<close>. Every call site passes a number for a numeric field (text
  inputs go through \<^verbatim>\<open>parseFloat(...) || 0\<close>) and a boolean for the one flag, so a value is a
  number or a boolean here; \<open>Number\<close> is JavaScript's coercion of it. A field of the typed
  record holds the value coerced to the field's type, which is the value itself at every
  call site.
\<close>

datatype fieldName =
    EmployeeCount
  | SecurityIncidentsPerMonth
  | AverageIncidentResponseTime
  | FalsePositiveRate
  | PricePerSecurityIncident
  | HumanSOCAnalysts
  | HumanSOCManager
  | HumanSOCEngineer
  | HumanSOCDirector
  | LegacySIEMPricePerGB
  | StellarXDRCostPerGB
  | SwitchFromLegacySIEM
  | LogVolumeIncidentRatio
  | MonthlyLogVolumeGB
  | StellarXDRPlatformCosts
  | SiemLicensingCosts

datatype jsvalue = JNumber real | JBoolean bool

fun Number :: "jsvalue \<Rightarrow> real" where
  "Number (JNumber x) = x"
| "Number (JBoolean b) = (if b then 1 else 0)"

fun Boolean :: "jsvalue \<Rightarrow> bool" where
  "Boolean (JNumber x) = (x \<noteq> 0)"
| "Boolean (JBoolean b) = b"

text \<open>The object literal \<^verbatim>\<open>{...prev, [field]: value}\<close>.\<close>

fun assign :: "fieldName \<Rightarrow> jsvalue \<Rightarrow> CalculationInputs \<Rightarrow> CalculationInputs" where
  "assign EmployeeCount v prev = prev\<lparr>employeeCount := Number v\<rparr>"
| "assign SecurityIncidentsPerMonth v prev = prev\<lparr>securityIncidentsPerMonth := Number v\<rparr>"
| "assign AverageIncidentResponseTime v prev = prev\<lparr>averageIncidentResponseTime := Number v\<rparr>"
| "assign FalsePositiveRate v prev = prev\<lparr>falsePositiveRate := Number v\<rparr>"
| "assign PricePerSecurityIncident v prev = prev\<lparr>pricePerSecurityIncident := Number v\<rparr>"
| "assign HumanSOCAnalysts v prev = prev\<lparr>humanSOCAnalysts := Number v\<rparr>"
| "assign HumanSOCManager v prev = prev\<lparr>humanSOCManager := Number v\<rparr>"
| "assign HumanSOCEngineer v prev = prev\<lparr>humanSOCEngineer := Number v\<rparr>"
| "assign HumanSOCDirector v prev = prev\<lparr>humanSOCDirector := Number v\<rparr>"
| "assign LegacySIEMPricePerGB v prev = prev\<lparr>legacySIEMPricePerGB := Number v\<rparr>"
| "assign StellarXDRCostPerGB v prev = prev\<lparr>stellarXDRCostPerGB := Number v\<rparr>"
| "assign SwitchFromLegacySIEM v prev = prev\<lparr>switchFromLegacySIEM := Boolean v\<rparr>"
| "assign LogVolumeIncidentRatio v prev = prev\<lparr>logVolumeIncidentRatio := Number v\<rparr>"
| "assign MonthlyLogVolumeGB v prev = prev\<lparr>monthlyLogVolumeGB := Number v\<rparr>"
| "assign StellarXDRPlatformCosts v prev = prev\<lparr>stellarXDRPlatformCosts := Number v\<rparr>"
| "assign SiemLicensingCosts v prev = prev\<lparr>siemLicensingCosts := Number v\<rparr>"

text \<open>
  The five \<^verbatim>\<open>if (field === ...)\<close> blocks of the handler, in the source's order. Each block
  reads only fields that it has not yet written, so its assignments are one record update.
\<close>

definition employeeCountBlock :: "jsvalue \<Rightarrow> CalculationInputs \<Rightarrow> CalculationInputs" where
  "employeeCountBlock v newInputs =
     (let ratio = securityIncidentsPerMonth defaultInputs / employeeCount defaultInputs;
          newIncidents = real_of_int (round (Number v * ratio));
          newLogVolume = real_of_int (round (newIncidents * logVolumeIncidentRatio newInputs))
      in newInputs
           \<lparr> securityIncidentsPerMonth := newIncidents,
             humanSOCAnalysts := real_of_int \<lceil>newIncidents / 1000\<rceil>,
             humanSOCManager := real_of_int \<lceil>newIncidents / 3000\<rceil>,
             humanSOCEngineer := real_of_int \<lceil>newIncidents / 3000\<rceil>,
             humanSOCDirector := real_of_int \<lceil>newIncidents / 6000\<rceil>,
             monthlyLogVolumeGB := newLogVolume,
             stellarXDRPlatformCosts := newLogVolume * stellarXDRCostPerGB newInputs * 12,
             siemLicensingCosts := newLogVolume * legacySIEMPricePerGB newInputs * 12 \<rparr>)"

definition securityIncidentsBlock :: "jsvalue \<Rightarrow> CalculationInputs \<Rightarrow> CalculationInputs" where
  "securityIncidentsBlock v newInputs =
     (let incidents = Number v;
          ratio = securityIncidentsPerMonth defaultInputs / employeeCount defaultInputs;
          newEmployeeCount = real_of_int (round (incidents / ratio));
          newLogVolume = real_of_int (round (incidents * logVolumeIncidentRatio newInputs))
      in newInputs
           \<lparr> employeeCount := newEmployeeCount,
             humanSOCAnalysts := real_of_int \<lceil>incidents / 1000\<rceil>,
             humanSOCManager := real_of_int \<lceil>incidents / 3000\<rceil>,
             humanSOCEngineer := real_of_int \<lceil>incidents / 3000\<rceil>,
             humanSOCDirector := real_of_int \<lceil>incidents / 6000\<rceil>,
             monthlyLogVolumeGB := newLogVolume,
             stellarXDRPlatformCosts := newLogVolume * stellarXDRCostPerGB newInputs * 12,
             siemLicensingCosts := newLogVolume * legacySIEMPricePerGB newInputs * 12 \<rparr>)"

definition logVolumeIncidentRatioBlock :: "jsvalue \<Rightarrow> CalculationInputs \<Rightarrow> CalculationInputs" where
  "logVolumeIncidentRatioBlock v newInputs =
     (let newLogVolume = real_of_int (round (securityIncidentsPerMonth newInputs * Number v))
      in newInputs
           \<lparr> monthlyLogVolumeGB := newLogVolume,
             stellarXDRPlatformCosts := newLogVolume * stellarXDRCostPerGB newInputs * 12,
             siemLicensingCosts := newLogVolume * legacySIEMPricePerGB newInputs * 12 \<rparr>)"

definition stellarXDRCostPerGBBlock :: "jsvalue \<Rightarrow> CalculationInputs \<Rightarrow> CalculationInputs" where
  "stellarXDRCostPerGBBlock v newInputs =
     newInputs\<lparr>stellarXDRPlatformCosts := monthlyLogVolumeGB newInputs * Number v * 12\<rparr>"

definition legacySIEMPricePerGBBlock :: "jsvalue \<Rightarrow> CalculationInputs \<Rightarrow> CalculationInputs" where
  "legacySIEMPricePerGBBlock v newInputs =
     newInputs\<lparr>siemLicensingCosts := monthlyLogVolumeGB newInputs * Number v * 12\<rparr>"

definition handleInputChange ::
    "fieldName \<Rightarrow> jsvalue \<Rightarrow> CalculationInputs \<Rightarrow> CalculationInputs" where
  "handleInputChange fld v prev =
     (let n0 = assign fld v prev;
          n1 = (if fld = EmployeeCount then employeeCountBlock v n0 else n0);
          n2 = (if fld = SecurityIncidentsPerMonth then securityIncidentsBlock v n1 else n1);
          n3 = (if fld = LogVolumeIncidentRatio then logVolumeIncidentRatioBlock v n2 else n2);
          n4 = (if fld = StellarXDRCostPerGB then stellarXDRCostPerGBBlock v n3 else n3);
          n5 = (if fld = LegacySIEMPricePerGB then legacySIEMPricePerGBBlock v n4 else n4)
      in n5)"

text \<open>
  Before returning, the handler writes the eight base fields of the new record to local
  storage; the write does not change the record it returns.
\<close>

definition baseFieldsToSave :: "CalculationInputs \<Rightarrow> BaseInputs" where
  "baseFieldsToSave newInputs =
     \<lparr> employeeCount = employeeCount newInputs,
       averageIncidentResponseTime = averageIncidentResponseTime newInputs,
       falsePositiveRate = falsePositiveRate newInputs,
       pricePerSecurityIncident = pricePerSecurityIncident newInputs,
       legacySIEMPricePerGB = legacySIEMPricePerGB newInputs,
       stellarXDRCostPerGB = stellarXDRCostPerGB newInputs,
       logVolumeIncidentRatio = logVolumeIncidentRatio newInputs,
       switchFromLegacySIEM = switchFromLegacySIEM newInputs \<rparr>"

subsection \<open>ValueAnalysis (value-analysis, two variants)\<close>

text \<open>
  The component's props carry five fields of the input record and three of the result
  record under the same names; the prefix \<open>va_\<close> keeps the selectors apart.
\<close>

record ValueAnalysisInputs =
  va_falsePositiveRate :: real
  va_securityIncidentsPerMonth :: real
  va_averageIncidentResponseTime :: real
  va_humanSOCAnalysts :: real
  va_employeeCount :: real

record ValueAnalysisResults =
  va_annualSavings :: real
  va_humanSOCTotalCost :: real
  va_autonomousSOCTotalCost :: real

record ValueAnalysisProps =
  inputs :: ValueAnalysisInputs
  results :: ValueAnalysisResults

text \<open>
  The props as the calculator passes them to the component, with \<^verbatim>\<open>results\<close> the state
  that \<^verbatim>\<open>setResults(calculateROI())\<close> holds for the current inputs.
\<close>

definition valueAnalysisProps :: "CalculationInputs \<Rightarrow> ValueAnalysisProps" where
  "valueAnalysisProps i =
     (let r = calculateROI i
      in \<lparr> inputs =
             \<lparr> va_falsePositiveRate = falsePositiveRate i,
               va_securityIncidentsPerMonth = securityIncidentsPerMonth i,
               va_averageIncidentResponseTime = averageIncidentResponseTime i,
               va_humanSOCAnalysts = humanSOCAnalysts i,
               va_employeeCount = employeeCount i \<rparr>,
           results =
             \<lparr> va_annualSavings = annualSavings r,
               va_humanSOCTotalCost = humanSOCTotalCost r,
               va_autonomousSOCTotalCost = autonomousSOCTotalCost r \<rparr> \<rparr>)"

record Category =
  cat_name :: string
  cat_value :: real
  cat_description :: string

text \<open>
  \<^verbatim>\<open>.sort((a, b) => b.value - a.value)\<close>: a stable sort, descending by value.
\<close>

definition sortByValueDescending :: "Category list \<Rightarrow> Category list" where
  "sortByValueDescending cs = sort_key (\<lambda>c. - cat_value c) cs"

text \<open>
  The number that \<^verbatim>\<open>formatPercentage\<close> prints with one decimal. With \<^verbatim>\<open>totalValue\<close> zero
  the division gives \<^verbatim>\<open>NaN\<close> or an infinity in JavaScript: \<open>None\<close> here.
\<close>

definition percentageOfTotal :: "real \<Rightarrow> real \<Rightarrow> real option" where
  "percentageOfTotal totalValue v =
     (if totalValue = 0 then None else Some ((v / totalValue) * 100))"

definition nonNegativeCategory :: "Category \<Rightarrow> bool" where
  "nonNegativeCategory c = (0 \<le> cat_value c)"

paragraph \<open>First variant: ten categories\<close>

record ValueMetrics =
  falsePositiveReduction :: real
  riskReduction :: real
  productivityImprovement :: real
  incidentResponseTime :: real
  analystRetention :: real
  complianceEfficiency :: real
  threatIntelligence :: real
  automationValue :: real
  stressReduction :: real
  shiftCoverage :: real

definition calculateValueMetrics :: "ValueAnalysisProps \<Rightarrow> ValueMetrics" where
  "calculateValueMetrics props =
     (let baseAnalystSalary = 85000 :: real;
          analystHoursPerYear = 2080 :: real;
          analystHourlyRate = baseAnalystSalary / analystHoursPerYear;
          currentFalsePositives =
            va_securityIncidentsPerMonth (inputs props)
              * (va_falsePositiveRate (inputs props) / 100) * 12;
          reducedFalsePositives = va_securityIncidentsPerMonth (inputs props) * (5 / 100) * 12;
          falsePositiveReduction' =
            (currentFalsePositives - reducedFalsePositives) * 2 * analystHourlyRate;
          riskReductionPerIncident = 5000 :: real;
          riskReduction' =
            va_securityIncidentsPerMonth (inputs props) * 12 * riskReductionPerIncident * (3 / 10);
          productivityHoursSaved =
            va_humanSOCAnalysts (inputs props) * analystHoursPerYear * (4 / 10);
          productivityImprovement' = productivityHoursSaved * analystHourlyRate * (15 / 10);
          timeReduction = va_averageIncidentResponseTime (inputs props) * (85 / 100);
          incidentResponseTime' =
            va_securityIncidentsPerMonth (inputs props) * 12 * timeReduction
              * analystHourlyRate * 2;
          turnoverCost = baseAnalystSalary * (5 / 10);
          analystRetention' = va_humanSOCAnalysts (inputs props) * turnoverCost * (6 / 10);
          complianceHoursPerYear = va_humanSOCAnalysts (inputs props) * 200;
          complianceEfficiency' = complianceHoursPerYear * analystHourlyRate * (7 / 10);
          threatIntelligence' = va_employeeCount (inputs props) * 50;
          automationHours = va_humanSOCAnalysts (inputs props) * analystHoursPerYear * (3 / 10);
          automationValue' = automationHours * analystHourlyRate;
          stressReductionValue = va_humanSOCAnalysts (inputs props) * 15000;
          shiftCoverageValue = va_humanSOCAnalysts (inputs props) * 20000
      in \<lparr> falsePositiveReduction = falsePositiveReduction',
           riskReduction = riskReduction',
           productivityImprovement = productivityImprovement',
           incidentResponseTime = incidentResponseTime',
           analystRetention = analystRetention',
           complianceEfficiency = complianceEfficiency',
           threatIntelligence = threatIntelligence',
           automationValue = automationValue',
           stressReduction = stressReductionValue,
           shiftCoverage = shiftCoverageValue \<rparr>)"

text \<open>\<^verbatim>\<open>Object.values(valueMetrics)\<close>, in the order of the keys of the returned object.\<close>

definition objectValues :: "ValueMetrics \<Rightarrow> real list" where
  "objectValues valueMetrics =
     [ falsePositiveReduction valueMetrics, riskReduction valueMetrics,
       productivityImprovement valueMetrics, incidentResponseTime valueMetrics,
       analystRetention valueMetrics, complianceEfficiency valueMetrics,
       threatIntelligence valueMetrics, automationValue valueMetrics,
       stressReduction valueMetrics, shiftCoverage valueMetrics ]"

definition totalValue :: "ValueMetrics \<Rightarrow> real" where
  "totalValue valueMetrics = foldl (\<lambda>sum v. sum + v) 0 (objectValues valueMetrics)"

definition valueCategories :: "ValueMetrics \<Rightarrow> Category list" where
  "valueCategories valueMetrics = sortByValueDescending
     [ \<lparr> cat_name = ''False Positive Reduction'',
         cat_value = falsePositiveReduction valueMetrics,
         cat_description = ''Reduced analyst burnout and wasted time'' \<rparr>,
       \<lparr> cat_name = ''Risk Reduction'',
         cat_value = riskReduction valueMetrics,
         cat_description = ''Prevented incident escalation costs'' \<rparr>,
       \<lparr> cat_name = ''Productivity Improvement'',
         cat_value = productivityImprovement valueMetrics,
         cat_description = ''Analysts focus on high-value tasks'' \<rparr>,
       \<lparr> cat_name = ''Faster Response Time'',
         cat_value = incidentResponseTime valueMetrics,
         cat_description = ''Reduced incident impact and costs'' \<rparr>,
       \<lparr> cat_name = ''Analyst Retention'',
         cat_value = analystRetention valueMetrics,
         cat_description = ''Reduced turnover and training costs'' \<rparr>,
       \<lparr> cat_name = ''Compliance Efficiency'',
         cat_value = complianceEfficiency valueMetrics,
         cat_description = ''Streamlined compliance processes'' \<rparr>,
       \<lparr> cat_name = ''Threat Intelligence'',
         cat_value = threatIntelligence valueMetrics,
         cat_description = ''Better threat detection and prevention'' \<rparr>,
       \<lparr> cat_name = ''Automation Value'',
         cat_value = automationValue valueMetrics,
         cat_description = ''Automated repetitive tasks'' \<rparr>,
       \<lparr> cat_name = ''Stress Reduction'',
         cat_value = stressReduction valueMetrics,
         cat_description = ''Improved analyst well-being and decision making'' \<rparr>,
       \<lparr> cat_name = ''24/7 Coverage'',
         cat_value = shiftCoverage valueMetrics,
         cat_description = ''Continuous monitoring without shift premiums'' \<rparr> ]"

paragraph \<open>Second variant: eight categories\<close>

text \<open>
  The second variant declares its own \<^verbatim>\<open>ValueMetrics\<close>, \<^verbatim>\<open>calculateValueMetrics\<close>,
  \<^verbatim>\<open>totalValue\<close> and \<^verbatim>\<open>valueCategories\<close>; they carry the suffix \<open>2\<close> here.
\<close>

record ValueMetrics2 =
  falsePositiveReduction2 :: real
  riskReduction2 :: real
  productivityImprovement2 :: real
  incidentResponseTime2 :: real
  analystRetention2 :: real
  complianceEfficiency2 :: real
  stressReduction2 :: real
  shiftCoverage2 :: real

definition calculateValueMetrics2 :: "ValueAnalysisProps \<Rightarrow> ValueMetrics2" where
  "calculateValueMetrics2 props =
     (let baseAnalystSalary = 85000 :: real;
          analystHoursPerYear = 2080 :: real;
          analystHourlyRate = baseAnalystSalary / analystHoursPerYear;
          currentFalsePositives =
            va_securityIncidentsPerMonth (inputs props)
              * (va_falsePositiveRate (inputs props) / 100) * 12;
          reducedFalsePositives = va_securityIncidentsPerMonth (inputs props) * (5 / 100) * 12;
          falsePositiveReduction' =
            (currentFalsePositives - reducedFalsePositives) * 2 * analystHourlyRate;
          riskReductionPerIncident = 5000 :: real;
          genuineIncidentsPerMonth =
            va_securityIncidentsPerMonth (inputs props)
              * (1 - va_falsePositiveRate (inputs props) / 100);
          riskReduction' = genuineIncidentsPerMonth * 12 * riskReductionPerIncident * (3 / 10);
          productivityHoursSaved =
            va_humanSOCAnalysts (inputs props) * analystHoursPerYear * (4 / 10);
          productivityImprovement' = productivityHoursSaved * analystHourlyRate * (15 / 10);
          truePositivesPerMonth =
            va_securityIncidentsPerMonth (inputs props)
              * (1 - va_falsePositiveRate (inputs props) / 100);
          falsePositivesPerMonth =
            va_securityIncidentsPerMonth (inputs props)
              * (va_falsePositiveRate (inputs props) / 100);
          truePositiveTimeSavings =
            truePositivesPerMonth * 12 * va_averageIncidentResponseTime (inputs props)
              * (85 / 100) * analystHourlyRate;
          falsePositiveInvestigationTime = 1 :: real;
          falsePositiveTimeSavings =
            falsePositivesPerMonth * 12 * falsePositiveInvestigationTime * (1 / 10)
              * analystHourlyRate;
          incidentResponseTime' = truePositiveTimeSavings + falsePositiveTimeSavings;
          turnoverCost = baseAnalystSalary * (5 / 10);
          analystRetention' = va_humanSOCAnalysts (inputs props) * turnoverCost * (6 / 10);
          complianceHoursPerYear = va_humanSOCAnalysts (inputs props) * 200;
          complianceEfficiency' = complianceHoursPerYear * analystHourlyRate * (7 / 10);
          stressReductionValue = va_humanSOCAnalysts (inputs props) * 15000;
          shiftCoverageValue = va_humanSOCAnalysts (inputs props) * 20000
      in \<lparr> falsePositiveReduction2 = falsePositiveReduction',
           riskReduction2 = riskReduction',
           productivityImprovement2 = productivityImprovement',
           incidentResponseTime2 = incidentResponseTime',
           analystRetention2 = analystRetention',
           complianceEfficiency2 = complianceEfficiency',
           stressReduction2 = stressReductionValue,
           shiftCoverage2 = shiftCoverageValue \<rparr>)"

definition objectValues2 :: "ValueMetrics2 \<Rightarrow> real list" where
  "objectValues2 valueMetrics =
     [ falsePositiveReduction2 valueMetrics, riskReduction2 valueMetrics,
       productivityImprovement2 valueMetrics, incidentResponseTime2 valueMetrics,
       analystRetention2 valueMetrics, complianceEfficiency2 valueMetrics,
       stressReduction2 valueMetrics, shiftCoverage2 valueMetrics ]"

definition totalValue2 :: "ValueMetrics2 \<Rightarrow> real" where
  "totalValue2 valueMetrics = foldl (\<lambda>sum v. sum + v) 0 (objectValues2 valueMetrics)"

definition valueCategories2 :: "ValueMetrics2 \<Rightarrow> Category list" where
  "valueCategories2 valueMetrics = sortByValueDescending
     [ \<lparr> cat_name = ''False Positive Reduction'',
         cat_value = falsePositiveReduction2 valueMetrics,
         cat_description = ''Reduced analyst burnout and wasted time'' \<rparr>,
       \<lparr> cat_name = ''Risk Reduction'',
         cat_value = riskReduction2 valueMetrics,
         cat_description = ''Prevented incident escalation costs'' \<rparr>,
       \<lparr> cat_name = ''Productivity Improvement'',
         cat_value = productivityImprovement2 valueMetrics,
         cat_description = ''Analysts focus on high-value tasks'' \<rparr>,
       \<lparr> cat_name = ''Faster Response Time'',
         cat_value = incidentResponseTime2 valueMetrics,
         cat_description = ''Reduced incident impact and costs'' \<rparr>,
       \<lparr> cat_name = ''Analyst Retention'',
         cat_value = analystRetention2 valueMetrics,
         cat_description = ''Reduced turnover and training costs'' \<rparr>,
       \<lparr> cat_name = ''Compliance Efficiency'',
         cat_value = complianceEfficiency2 valueMetrics,
         cat_description = ''Streamlined compliance processes'' \<rparr>,
       \<lparr> cat_name = ''Stress Reduction'',
         cat_value = stressReduction2 valueMetrics,
         cat_description = ''Improved analyst well-being and decision making'' \<rparr>,
       \<lparr> cat_name = ''24/7 Coverage'',
         cat_value = shiftCoverage2 valueMetrics,
         cat_description = ''Continuous monitoring without shift premiums'' \<rparr> ]"

text \<open>
  The shares that the category list renders, one \<^verbatim>\<open>formatPercentage(category.value)\<close> for
  each category in display order, and their sum, which is a number when every share is.
\<close>

definition percentageShares :: "real \<Rightarrow> Category list \<Rightarrow> real option list" where
  "percentageShares t cs = map (\<lambda>category. percentageOfTotal t (cat_value category)) cs"

fun sumDefined :: "real option list \<Rightarrow> real option" where
  "sumDefined [] = Some 0"
| "sumDefined (None # ps) = None"
| "sumDefined (Some p # ps) =
     (case sumDefined ps of None \<Rightarrow> None | Some s \<Rightarrow> Some (p + s))"

subsection \<open>Input conditions\<close>

text \<open>Every numeric field of the input record is non-negative.\<close>

definition nonNegativeInputs :: "CalculationInputs \<Rightarrow> bool" where
  "nonNegativeInputs i =
     (0 \<le> employeeCount i \<and> 0 \<le> averageIncidentResponseTime i
      \<and> 0 \<le> falsePositiveRate i \<and> 0 \<le> pricePerSecurityIncident i
      \<and> 0 \<le> legacySIEMPricePerGB i \<and> 0 \<le> stellarXDRCostPerGB i
      \<and> 0 \<le> logVolumeIncidentRatio i \<and> 0 \<le> securityIncidentsPerMonth i
      \<and> 0 \<le> humanSOCAnalysts i \<and> 0 \<le> humanSOCManager i
      \<and> 0 \<le> humanSOCEngineer i \<and> 0 \<le> humanSOCDirector i
      \<and> 0 \<le> monthlyLogVolumeGB i \<and> 0 \<le> stellarXDRPlatformCosts i
      \<and> 0 \<le> siemLicensingCosts i)"

subsection \<open>Concrete input records\<close>

text \<open>
  A record whose savings cancel exactly: one analyst, licensing of 15000, platform costs of
  5000, and 1000 incidents a month at 4 each.
\<close>

definition zeroSavingsInputs :: CalculationInputs where
  "zeroSavingsInputs =
     \<lparr> employeeCount = 208,
       averageIncidentResponseTime = 0,
       falsePositiveRate = 0,
       pricePerSecurityIncident = 4,
       legacySIEMPricePerGB = 3,
       stellarXDRCostPerGB = 2,
       logVolumeIncidentRatio = 3 / 2,
       switchFromLegacySIEM = True,
       securityIncidentsPerMonth = 1000,
       humanSOCAnalysts = 1,
       humanSOCManager = 0,
       humanSOCEngineer = 0,
       humanSOCDirector = 0,
       monthlyLogVolumeGB = 0,
       stellarXDRPlatformCosts = 5000,
       siemLicensingCosts = 15000 \<rparr>"

text \<open>The default record with a false-positive rate of zero.\<close>

definition lowFalsePositiveInputs :: CalculationInputs where
  "lowFalsePositiveInputs = defaultInputs\<lparr>falsePositiveRate := 0\<rparr>"

definition freeIncidentsInputs :: CalculationInputs where
  "freeIncidentsInputs = defaultInputs\<lparr>pricePerSecurityIncident := 0\<rparr>"

section \<open>Properties\<close>

subsection \<open>The default record\<close>

lemma defaultInputs_fields:
  "employeeCount defaultInputs = 500"
  "averageIncidentResponseTime defaultInputs = 4"
  "falsePositiveRate defaultInputs = 90"
  "pricePerSecurityIncident defaultInputs = 3"
  "securityIncidentsPerMonth defaultInputs = 2400"
  "humanSOCAnalysts defaultInputs = 3"
  "monthlyLogVolumeGB defaultInputs = 3600"
  by (simp_all add: defaultInputs_def calculateComputedFields_def baseInputs_def Let_def
      round_def)

lemma handler_ratio:
  "securityIncidentsPerMonth defaultInputs / employeeCount defaultInputs = 24 / 5"
  by (simp add: defaultInputs_fields)

text \<open>
  C3. Deriving the full record from the default base configuration (500 employees, ratio
  1.5, 2 and 3 per GB) gives 2400 incidents, 3 analysts, one manager, one engineer, one
  director, 3600 GB, platform costs 86400 and licensing costs 129600; the ratio \<open>K\<close> that
  the handler uses is the constant 2400 / 500.
\<close>

theorem C3_default_record:
  "employeeCount baseInputs = 500
   \<and> logVolumeIncidentRatio baseInputs = 15 / 10
   \<and> stellarXDRCostPerGB baseInputs = 2
   \<and> legacySIEMPricePerGB baseInputs = 3
   \<and> securityIncidentsPerMonth (calculateComputedFields baseInputs) = 2400
   \<and> humanSOCAnalysts (calculateComputedFields baseInputs) = 3
   \<and> humanSOCManager (calculateComputedFields baseInputs) = 1
   \<and> humanSOCEngineer (calculateComputedFields baseInputs) = 1
   \<and> humanSOCDirector (calculateComputedFields baseInputs) = 1
   \<and> monthlyLogVolumeGB (calculateComputedFields baseInputs) = 3600
   \<and> stellarXDRPlatformCosts (calculateComputedFields baseInputs) = 86400
   \<and> siemLicensingCosts (calculateComputedFields baseInputs) = 129600
   \<and> securityIncidentsPerMonth defaultInputs / employeeCount defaultInputs = 2400 / 500"
  by (simp add: defaultInputs_def calculateComputedFields_def baseInputs_def Let_def round_def)

subsection \<open>Efficiency and response improvement\<close>

text \<open>
  C1. For every input record the computed efficiency improvement is
  \<open>min(80, 38 + min(falsePositiveRate * 0.2, 15) + min(averageIncidentResponseTime * 3, 25)
  + min(max(0, monthlyLogVolumeGB - 1024) * 0.001, 15))\<close>.
\<close>

theorem C1_efficiency_formula:
  "efficiencyImprovement (calculateROI i) =
     min 80 (38 + min (falsePositiveRate i * (2 / 10)) 15
                + min (averageIncidentResponseTime i * 3) 25
                + min (max 0 (monthlyLogVolumeGB i - 1024) * (1 / 1000)) 15)"
  by (simp add: calculateROI_def calculateEfficiencyImprovement_def Let_def min.commute)

lemma roi_efficiency:
  "efficiencyImprovement (calculateROI i) = calculateEfficiencyImprovement i"
  by (simp add: calculateROI_def Let_def)

lemma roi_response:
  "incidentResponseImprovement (calculateROI i) = calculateIncidentResponseImprovement i"
  by (simp add: calculateROI_def Let_def)

lemma efficiency_mono:
  assumes "falsePositiveRate i \<le> falsePositiveRate j"
    and "averageIncidentResponseTime i \<le> averageIncidentResponseTime j"
    and "monthlyLogVolumeGB i \<le> monthlyLogVolumeGB j"
  shows "calculateEfficiencyImprovement i \<le> calculateEfficiencyImprovement j"
  unfolding calculateEfficiencyImprovement_def Let_def
  using assms
  by (intro min.mono add_mono mult_right_mono max.mono diff_right_mono order_refl) simp_all

lemma response_mono:
  assumes "falsePositiveRate i \<le> falsePositiveRate j"
    and "averageIncidentResponseTime i \<le> averageIncidentResponseTime j"
  shows "calculateIncidentResponseImprovement i \<le> calculateIncidentResponseImprovement j"
  unfolding calculateIncidentResponseImprovement_def Let_def
  using assms
  by (intro min.mono add_mono mult_right_mono order_refl) simp_all

lemma efficiency_upper: "calculateEfficiencyImprovement i \<le> 80"
  by (simp add: calculateEfficiencyImprovement_def Let_def)

lemma efficiency_lower:
  assumes "0 \<le> falsePositiveRate i" and "0 \<le> averageIncidentResponseTime i"
  shows "38 \<le> calculateEfficiencyImprovement i"
proof -
  have "0 \<le> min (falsePositiveRate i * (2 / 10)) 15"
    using assms by simp
  moreover have "0 \<le> min (averageIncidentResponseTime i * 3) 25"
    using assms by simp
  moreover have "0 \<le> min (max 0 (monthlyLogVolumeGB i - 1024) * (1 / 1000)) 15"
    by simp
  ultimately show ?thesis
    unfolding calculateEfficiencyImprovement_def Let_def by simp
qed

lemma response_upper: "calculateIncidentResponseImprovement i \<le> 68"
proof -
  have "min (averageIncidentResponseTime i * 2) 15 \<le> 15"
    by simp
  moreover have "min (falsePositiveRate i * (15 / 100)) 8 \<le> 8"
    by simp
  ultimately show ?thesis
    unfolding calculateIncidentResponseImprovement_def Let_def by simp
qed

lemma response_lower:
  assumes "0 \<le> falsePositiveRate i" and "0 \<le> averageIncidentResponseTime i"
  shows "45 \<le> calculateIncidentResponseImprovement i"
proof -
  have "0 \<le> min (averageIncidentResponseTime i * 2) 15"
    using assms by simp
  moreover have "0 \<le> min (falsePositiveRate i * (15 / 100)) 8"
    using assms by simp
  ultimately show ?thesis
    unfolding calculateIncidentResponseImprovement_def Let_def by simp
qed

text \<open>
  C5. With non-negative false-positive rate, response time and log volume, the efficiency
  improvement lies in [38, 80] and the response improvement in [45, 80], and neither
  decreases when one of the three inputs grows while every other field stays as it is.
\<close>

theorem C5_bounds_monotone:
  assumes "0 \<le> falsePositiveRate i" and "0 \<le> averageIncidentResponseTime i"
    and "0 \<le> monthlyLogVolumeGB i"
  shows "38 \<le> efficiencyImprovement (calculateROI i)
    \<and> efficiencyImprovement (calculateROI i) \<le> 80
    \<and> 45 \<le> incidentResponseImprovement (calculateROI i)
    \<and> incidentResponseImprovement (calculateROI i) \<le> 80
    \<and> (\<forall>x. falsePositiveRate i \<le> x \<longrightarrow>
          efficiencyImprovement (calculateROI i)
            \<le> efficiencyImprovement (calculateROI (i\<lparr>falsePositiveRate := x\<rparr>))
          \<and> incidentResponseImprovement (calculateROI i)
            \<le> incidentResponseImprovement (calculateROI (i\<lparr>falsePositiveRate := x\<rparr>)))
    \<and> (\<forall>x. averageIncidentResponseTime i \<le> x \<longrightarrow>
          efficiencyImprovement (calculateROI i)
            \<le> efficiencyImprovement (calculateROI (i\<lparr>averageIncidentResponseTime := x\<rparr>))
          \<and> incidentResponseImprovement (calculateROI i)
            \<le> incidentResponseImprovement
                 (calculateROI (i\<lparr>averageIncidentResponseTime := x\<rparr>)))
    \<and> (\<forall>x. monthlyLogVolumeGB i \<le> x \<longrightarrow>
          efficiencyImprovement (calculateROI i)
            \<le> efficiencyImprovement (calculateROI (i\<lparr>monthlyLogVolumeGB := x\<rparr>))
          \<and> incidentResponseImprovement (calculateROI i)
            \<le> incidentResponseImprovement (calculateROI (i\<lparr>monthlyLogVolumeGB := x\<rparr>)))"
proof -
  have bounds:
    "38 \<le> calculateEfficiencyImprovement i"
    "calculateEfficiencyImprovement i \<le> 80"
    "45 \<le> calculateIncidentResponseImprovement i"
    "calculateIncidentResponseImprovement i \<le> 80"
    using assms efficiency_lower [of i] efficiency_upper [of i]
      response_lower [of i] response_upper [of i]
    by simp_all
  have fp:
    "calculateEfficiencyImprovement i
       \<le> calculateEfficiencyImprovement (i\<lparr>falsePositiveRate := x\<rparr>)
     \<and> calculateIncidentResponseImprovement i
       \<le> calculateIncidentResponseImprovement (i\<lparr>falsePositiveRate := x\<rparr>)"
    if "falsePositiveRate i \<le> x" for x
    using that by (simp add: efficiency_mono response_mono)
  have rt:
    "calculateEfficiencyImprovement i
       \<le> calculateEfficiencyImprovement (i\<lparr>averageIncidentResponseTime := x\<rparr>)
     \<and> calculateIncidentResponseImprovement i
       \<le> calculateIncidentResponseImprovement (i\<lparr>averageIncidentResponseTime := x\<rparr>)"
    if "averageIncidentResponseTime i \<le> x" for x
    using that by (simp add: efficiency_mono response_mono)
  have lv:
    "calculateEfficiencyImprovement i
       \<le> calculateEfficiencyImprovement (i\<lparr>monthlyLogVolumeGB := x\<rparr>)
     \<and> calculateIncidentResponseImprovement i
       \<le> calculateIncidentResponseImprovement (i\<lparr>monthlyLogVolumeGB := x\<rparr>)"
    if "monthlyLogVolumeGB i \<le> x" for x
    using that by (simp add: efficiency_mono response_mono)
  show ?thesis
    unfolding roi_efficiency roi_response using bounds fp rt lv by blast
qed

theorem C5_bounds_monotone_witness:
  "0 \<le> falsePositiveRate defaultInputs
   \<and> 0 \<le> averageIncidentResponseTime defaultInputs
   \<and> 0 \<le> monthlyLogVolumeGB defaultInputs
   \<and> falsePositiveRate defaultInputs \<le> 95
   \<and> averageIncidentResponseTime defaultInputs \<le> 5
   \<and> monthlyLogVolumeGB defaultInputs \<le> 4000
   \<and> 38 \<le> efficiencyImprovement (calculateROI defaultInputs)
   \<and> efficiencyImprovement (calculateROI defaultInputs) \<le> 80
   \<and> 45 \<le> incidentResponseImprovement (calculateROI defaultInputs)
   \<and> incidentResponseImprovement (calculateROI defaultInputs) \<le> 80
   \<and> efficiencyImprovement (calculateROI defaultInputs)
        \<le> efficiencyImprovement (calculateROI (defaultInputs\<lparr>falsePositiveRate := 95\<rparr>))
   \<and> incidentResponseImprovement (calculateROI defaultInputs)
        \<le> incidentResponseImprovement
             (calculateROI (defaultInputs\<lparr>averageIncidentResponseTime := 5\<rparr>))
   \<and> efficiencyImprovement (calculateROI defaultInputs)
        \<le> efficiencyImprovement (calculateROI (defaultInputs\<lparr>monthlyLogVolumeGB := 4000\<rparr>))"
proof -
  have nonneg:
    "0 \<le> falsePositiveRate defaultInputs"
    "0 \<le> averageIncidentResponseTime defaultInputs"
    "0 \<le> monthlyLogVolumeGB defaultInputs"
    by (simp_all add: defaultInputs_fields)
  have larger:
    "falsePositiveRate defaultInputs \<le> 95"
    "averageIncidentResponseTime defaultInputs \<le> 5"
    "monthlyLogVolumeGB defaultInputs \<le> 4000"
    by (simp_all add: defaultInputs_fields)
  from C5_bounds_monotone [OF nonneg] nonneg larger show ?thesis
    by blast
qed

text \<open>
  C10. With non-negative response time and false-positive rate the response improvement
  never exceeds 68, the sum of the component caps 45 + 15 + 8, so it never reaches the
  overall cap of 80.
\<close>

theorem C10_response_at_most_68:
  assumes "0 \<le> averageIncidentResponseTime i" and "0 \<le> falsePositiveRate i"
  shows "incidentResponseImprovement (calculateROI i) \<le> 68
    \<and> incidentResponseImprovement (calculateROI i) < 80"
  using response_upper [of i] by (simp add: roi_response)

theorem C10_response_at_most_68_witness:
  "0 \<le> averageIncidentResponseTime defaultInputs
   \<and> 0 \<le> falsePositiveRate defaultInputs
   \<and> incidentResponseImprovement (calculateROI defaultInputs) \<le> 68
   \<and> incidentResponseImprovement (calculateROI defaultInputs) < 80"
proof -
  have nonneg:
    "0 \<le> averageIncidentResponseTime defaultInputs"
    "0 \<le> falsePositiveRate defaultInputs"
    by (simp_all add: defaultInputs_fields)
  from C10_response_at_most_68 [OF nonneg] nonneg show ?thesis
    by blast
qed

subsection \<open>Return on investment\<close>

lemma roi_guard:
  "roiPercentage (calculateROI i) =
     (if autonomousSOCAnnualCost i = 0 then 0
      else annualSavings (calculateROI i) / autonomousSOCAnnualCost i * 100)"
  by (simp add: calculateROI_def Let_def)

lemma roi_cost:
  "autonomousSOCTotalCost (calculateROI i) = autonomousSOCAnnualCost i"
  by (simp add: calculateROI_def Let_def)

text \<open>
  C2, as stated, fails: the record \<open>zeroSavingsInputs\<close> has an autonomous-SOC cost of 48000
  and savings of exactly zero, so its ROI percentage is zero although the cost is not.
\<close>

theorem C2_roi_zero_counterexample:
  "roiPercentage (calculateROI zeroSavingsInputs) = 0
   \<and> autonomousSOCAnnualCost zeroSavingsInputs = 48000
   \<and> autonomousSOCAnnualCost zeroSavingsInputs \<noteq> 0"
  by (simp add: calculateROI_def calculateEfficiencyImprovement_def
      autonomousSOCAnnualCost_def zeroSavingsInputs_def Let_def)

text \<open>
  C2, amended. The autonomous-SOC annual cost is incidents times price times 12. The ROI
  percentage is 0 when that cost is 0 and savings / cost * 100 otherwise; hence it is 0
  exactly when the cost is 0 or the savings are 0.
\<close>

theorem C2_roi_guard:
  "autonomousSOCAnnualCost i
     = securityIncidentsPerMonth i * pricePerSecurityIncident i * 12
   \<and> autonomousSOCTotalCost (calculateROI i) = autonomousSOCAnnualCost i
   \<and> roiPercentage (calculateROI i) =
       (if autonomousSOCAnnualCost i = 0 then 0
        else annualSavings (calculateROI i) / autonomousSOCAnnualCost i * 100)
   \<and> (roiPercentage (calculateROI i) = 0
        \<longleftrightarrow> (autonomousSOCAnnualCost i = 0 \<or> annualSavings (calculateROI i) = 0))"
proof -
  have "autonomousSOCAnnualCost i
      = securityIncidentsPerMonth i * pricePerSecurityIncident i * 12"
    by (simp add: autonomousSOCAnnualCost_def)
  then show ?thesis
    by (simp add: roi_guard roi_cost)
qed

theorem C2_roi_guard_witness:
  "autonomousSOCAnnualCost freeIncidentsInputs = 0
   \<and> securityIncidentsPerMonth freeIncidentsInputs = 2400
   \<and> roiPercentage (calculateROI freeIncidentsInputs) = 0"
proof -
  have price: "pricePerSecurityIncident freeIncidentsInputs = 0"
    and incidents: "securityIncidentsPerMonth freeIncidentsInputs = 2400"
    by (simp_all add: freeIncidentsInputs_def defaultInputs_fields)
  from C2_roi_guard [of freeIncidentsInputs] price incidents show ?thesis
    by simp
qed

subsection \<open>Editing a field\<close>

lemma edit_employeeCount_incidents:
  "securityIncidentsPerMonth (handleInputChange EmployeeCount (JNumber e) i)
     = real_of_int (round (e * (24 / 5)))"
  by (simp add: handleInputChange_def employeeCountBlock_def Let_def handler_ratio)

lemma edit_incidents_employeeCount:
  "employeeCount (handleInputChange SecurityIncidentsPerMonth (JNumber n) i)
     = real_of_int (round (n / (24 / 5)))"
  by (simp add: handleInputChange_def securityIncidentsBlock_def Let_def handler_ratio)

lemma round_trip_bound:
  fixes e :: real
  shows "\<bar>real_of_int (round (real_of_int (round (e * (24 / 5))) / (24 / 5))) - e\<bar>
           \<le> 29 / 48"
proof -
  define n where "n = real_of_int (round (e * (24 / 5)))"
  define m where "m = real_of_int (round (n / (24 / 5)))"
  have a: "\<bar>n - e * (24 / 5)\<bar> \<le> 1 / 2"
    unfolding n_def by (rule of_int_round_abs_le)
  have b: "\<bar>m - n / (24 / 5)\<bar> \<le> 1 / 2"
    unfolding m_def by (rule of_int_round_abs_le)
  have c: "n / (24 / 5) = n * 5 / 24"
    by simp
  from a b have "\<bar>m - e\<bar> \<le> 29 / 48"
    unfolding c by linarith
  then show ?thesis
    unfolding m_def n_def .
qed

lemma round_trip_int:
  fixes k :: int
  shows "round (real_of_int (round (real_of_int k * (24 / 5))) / (24 / 5)) = k"
proof -
  define n where "n = real_of_int (round (real_of_int k * (24 / 5)))"
  have a: "\<bar>n - real_of_int k * (24 / 5)\<bar> \<le> 1 / 2"
    unfolding n_def by (rule of_int_round_abs_le)
  have c: "n / (24 / 5) = n * 5 / 24"
    by simp
  have "round (n / (24 / 5)) = k"
  proof (rule round_unique)
    from a show "n / (24 / 5) - 1 / 2 < real_of_int k"
      unfolding c by linarith
    from a show "real_of_int k \<le> n / (24 / 5) + 1 / 2"
      unfolding c by linarith
  qed
  then show ?thesis
    unfolding n_def .
qed

text \<open>
  C4. For a positive employee count \<open>e\<close>, an edit of \<open>employeeCount\<close> on any record \<open>i\<close>
  stores \<open>e\<close> and sets the incident count to \<open>round (e * K)\<close> with \<open>K = 4.8\<close>. An edit of
  \<open>securityIncidentsPerMonth\<close> to \<open>n\<close> on any record \<open>j\<close>, whatever employee count \<open>j\<close>
  holds, sets the employee count to \<open>round (n / K)\<close>. So the edit to the incident count that
  the first edit produced sets the employee count of \<open>j\<close> to a value less than 1 away from
  \<open>e\<close>, and to \<open>e\<close> itself when \<open>e\<close> is an integer; \<open>j\<close> may be the record that the first
  edit returned.
\<close>

theorem C4_employee_incident_round_trip:
  assumes "0 < e"
  shows "securityIncidentsPerMonth defaultInputs / employeeCount defaultInputs = 48 / 10
    \<and> employeeCount (handleInputChange EmployeeCount (JNumber e) i) = e
    \<and> securityIncidentsPerMonth (handleInputChange EmployeeCount (JNumber e) i)
        = real_of_int (round (e * (48 / 10)))
    \<and> securityIncidentsPerMonth (handleInputChange SecurityIncidentsPerMonth (JNumber n) j)
        = n
    \<and> employeeCount (handleInputChange SecurityIncidentsPerMonth (JNumber n) j)
        = real_of_int (round (n / (48 / 10)))
    \<and> \<bar>employeeCount
          (handleInputChange SecurityIncidentsPerMonth
            (JNumber (securityIncidentsPerMonth
               (handleInputChange EmployeeCount (JNumber e) i)))
            j) - e\<bar> < 1
    \<and> (e \<in> \<int> \<longrightarrow>
         employeeCount
          (handleInputChange SecurityIncidentsPerMonth
            (JNumber (securityIncidentsPerMonth
               (handleInputChange EmployeeCount (JNumber e) i)))
            j) = e)
    \<and> \<bar>employeeCount
          (handleInputChange SecurityIncidentsPerMonth
            (JNumber (securityIncidentsPerMonth
               (handleInputChange EmployeeCount (JNumber e) i)))
            (handleInputChange EmployeeCount (JNumber e) i)) - e\<bar> < 1
    \<and> (e \<in> \<int> \<longrightarrow>
         employeeCount
          (handleInputChange SecurityIncidentsPerMonth
            (JNumber (securityIncidentsPerMonth
               (handleInputChange EmployeeCount (JNumber e) i)))
            (handleInputChange EmployeeCount (JNumber e) i)) = e)"
proof -
  have r: "(48 / 10 :: real) = 24 / 5"
    by simp
  have 0: "employeeCount (handleInputChange EmployeeCount (JNumber e) i) = e"
    by (simp add: handleInputChange_def employeeCountBlock_def Let_def)
  have 1: "securityIncidentsPerMonth (handleInputChange EmployeeCount (JNumber e) i)
        = real_of_int (round (e * (24 / 5)))"
    by (rule edit_employeeCount_incidents)
  have 2: "\<bar>real_of_int (round (real_of_int (round (e * (24 / 5))) / (24 / 5))) - e\<bar> < 1"
    using round_trip_bound [of e] by simp
  have 3: "real_of_int (round (real_of_int (round (e * (24 / 5))) / (24 / 5))) = e"
    if "e \<in> \<int>"
  proof -
    from that obtain k where "e = real_of_int k"
      by (auto elim: Ints_cases)
    then show ?thesis
      using round_trip_int [of k] by simp
  qed
  have 4: "securityIncidentsPerMonth
             (handleInputChange SecurityIncidentsPerMonth (JNumber n) j) = n"
    by (simp add: handleInputChange_def securityIncidentsBlock_def Let_def)
  show ?thesis
    unfolding r edit_incidents_employeeCount 0 1 4 using handler_ratio 2 3 by blast
qed

text \<open>
  At \<open>e = 120\<close> the first edit gives 576 incidents, and the edit to 576 incidents turns the
  500 employees of the default record into 120; the edit to 1000 incidents turns them
  into 208.
\<close>

theorem C4_employee_incident_round_trip_witness:
  "(0::real) < 120 \<and> (120::real) \<in> \<int>
   \<and> employeeCount defaultInputs = 500
   \<and> securityIncidentsPerMonth (handleInputChange EmployeeCount (JNumber 120) defaultInputs)
       = 576
   \<and> employeeCount
       (handleInputChange SecurityIncidentsPerMonth
         (JNumber (securityIncidentsPerMonth
            (handleInputChange EmployeeCount (JNumber 120) defaultInputs)))
         defaultInputs) = 120
   \<and> employeeCount
       (handleInputChange SecurityIncidentsPerMonth (JNumber 1000) defaultInputs) = 208"
proof -
  have pos: "(0::real) < 120"
    by simp
  have int: "(120::real) \<in> \<int>"
    by simp
  note t = C4_employee_incident_round_trip
             [OF pos, where i = defaultInputs and j = defaultInputs and n = 1000]
  from t have
    "securityIncidentsPerMonth (handleInputChange EmployeeCount (JNumber 120) defaultInputs)
       = real_of_int (round (120 * (48 / 10) :: real))"
    by blast
  then have inc:
    "securityIncidentsPerMonth (handleInputChange EmployeeCount (JNumber 120) defaultInputs)
       = 576"
    by (simp add: round_def)
  from t int have inverse:
    "employeeCount
       (handleInputChange SecurityIncidentsPerMonth
         (JNumber (securityIncidentsPerMonth
            (handleInputChange EmployeeCount (JNumber 120) defaultInputs)))
         defaultInputs) = 120"
    by blast
  from t have
    "employeeCount
       (handleInputChange SecurityIncidentsPerMonth (JNumber 1000) defaultInputs)
       = real_of_int (round (1000 / (48 / 10) :: real))"
    by blast
  then have direct:
    "employeeCount
       (handleInputChange SecurityIncidentsPerMonth (JNumber 1000) defaultInputs) = 208"
    by (simp add: round_def)
  have "employeeCount defaultInputs = 500"
    by (simp add: defaultInputs_fields)
  with pos int inc inverse direct show ?thesis
    by blast
qed

text \<open>
  C7. An edit of \<open>stellarXDRCostPerGB\<close> to \<open>v\<close> sets that field to \<open>v\<close> and the platform
  costs to \<open>monthlyLogVolumeGB * v * 12\<close>, and changes no other field; the log volume and
  the licensing costs in particular stay as they were.
\<close>

theorem C7_stellar_cost_edit_frame:
  "handleInputChange StellarXDRCostPerGB (JNumber v) i =
     i\<lparr> stellarXDRCostPerGB := v,
        stellarXDRPlatformCosts := monthlyLogVolumeGB i * v * 12 \<rparr>
   \<and> stellarXDRCostPerGB (handleInputChange StellarXDRCostPerGB (JNumber v) i) = v
   \<and> stellarXDRPlatformCosts (handleInputChange StellarXDRCostPerGB (JNumber v) i)
       = monthlyLogVolumeGB i * v * 12
   \<and> monthlyLogVolumeGB (handleInputChange StellarXDRCostPerGB (JNumber v) i)
       = monthlyLogVolumeGB i
   \<and> siemLicensingCosts (handleInputChange StellarXDRCostPerGB (JNumber v) i)
       = siemLicensingCosts i"
  by (simp add: handleInputChange_def stellarXDRCostPerGBBlock_def Let_def)

subsection \<open>The value-category breakdown\<close>

lemma props_inputs:
  "va_falsePositiveRate (inputs (valueAnalysisProps i)) = falsePositiveRate i"
  "va_securityIncidentsPerMonth (inputs (valueAnalysisProps i)) = securityIncidentsPerMonth i"
  "va_averageIncidentResponseTime (inputs (valueAnalysisProps i))
     = averageIncidentResponseTime i"
  "va_humanSOCAnalysts (inputs (valueAnalysisProps i)) = humanSOCAnalysts i"
  "va_employeeCount (inputs (valueAnalysisProps i)) = employeeCount i"
  by (simp_all add: valueAnalysisProps_def Let_def)

lemma list_all_sorted: "list_all P (sortByValueDescending cs) = list_all P cs"
  by (simp add: sortByValueDescending_def list_all_iff)

lemma sum_sorted:
  "sum_list (map cat_value (sortByValueDescending cs)) = sum_list (map cat_value cs)"
proof -
  have "mset (map cat_value (sortByValueDescending cs)) = mset (map cat_value cs)"
    by (simp add: sortByValueDescending_def)
  then show ?thesis
    by (metis sum_mset_sum_list)
qed

lemma sum_shares:
  assumes "t \<noteq> 0"
  shows "sumDefined (percentageShares t cs) = Some (sum_list (map cat_value cs) / t * 100)"
  using assms
  by (induction cs)
    (simp_all add: percentageShares_def percentageOfTotal_def add_divide_distrib
      distrib_right)

lemma categories_sum: "sum_list (map cat_value (valueCategories vm)) = totalValue vm"
  unfolding valueCategories_def sum_sorted
  by (simp add: totalValue_def objectValues_def)

lemma categories2_sum: "sum_list (map cat_value (valueCategories2 vm)) = totalValue2 vm"
  unfolding valueCategories2_def sum_sorted
  by (simp add: totalValue2_def objectValues2_def)

lemma false_positive_term_nonneg:
  fixes n f :: real
  assumes "0 \<le> n" and "5 \<le> f"
  shows "0 \<le> (n * (f / 100) * 12 - n * (5 / 100) * 12) * 2 * (85000 / 2080)"
proof -
  have "5 * n \<le> f * n"
    using assms by (intro mult_right_mono) simp_all
  then show ?thesis
    by simp
qed

lemma categories_nonneg:
  assumes "nonNegativeInputs i" and "5 \<le> falsePositiveRate i"
  shows "list_all nonNegativeCategory
           (valueCategories (calculateValueMetrics (valueAnalysisProps i)))"
  using assms false_positive_term_nonneg [of "securityIncidentsPerMonth i" "falsePositiveRate i"]
  unfolding valueCategories_def list_all_sorted
  by (simp add: nonNegativeCategory_def calculateValueMetrics_def Let_def props_inputs
      nonNegativeInputs_def)

lemma categories2_nonneg:
  assumes "nonNegativeInputs i" and "5 \<le> falsePositiveRate i"
    and "falsePositiveRate i \<le> 100"
  shows "list_all nonNegativeCategory
           (valueCategories2 (calculateValueMetrics2 (valueAnalysisProps i)))"
  using assms false_positive_term_nonneg [of "securityIncidentsPerMonth i" "falsePositiveRate i"]
  unfolding valueCategories2_def list_all_sorted
  by (simp add: nonNegativeCategory_def calculateValueMetrics2_def Let_def props_inputs
      nonNegativeInputs_def)

lemma defaultInputs_nonNegative: "nonNegativeInputs defaultInputs"
  by (simp add: nonNegativeInputs_def defaultInputs_def calculateComputedFields_def
      baseInputs_def Let_def round_def)

text \<open>
  C6, as stated, fails: with the default record and a false-positive rate of 0, every
  numeric field is non-negative and the rate is within [0, 100], yet the False Positive
  Reduction entry is negative in both variants.
\<close>

theorem C6_negative_entry_counterexample:
  "nonNegativeInputs lowFalsePositiveInputs
   \<and> 0 \<le> falsePositiveRate lowFalsePositiveInputs
   \<and> falsePositiveRate lowFalsePositiveInputs \<le> 100
   \<and> \<not> list_all nonNegativeCategory
         (valueCategories (calculateValueMetrics (valueAnalysisProps lowFalsePositiveInputs)))
   \<and> \<not> list_all nonNegativeCategory
         (valueCategories2 (calculateValueMetrics2 (valueAnalysisProps lowFalsePositiveInputs)))"
  unfolding valueCategories_def valueCategories2_def list_all_sorted
  by (simp add: nonNegativeCategory_def calculateValueMetrics_def calculateValueMetrics2_def
      Let_def props_inputs nonNegativeInputs_def lowFalsePositiveInputs_def defaultInputs_def
      calculateComputedFields_def baseInputs_def round_def)

text \<open>
  C6, amended. For every input record whose numeric fields are non-negative and whose
  false-positive rate lies in [5, 100], every entry of the value-category breakdown has a
  non-negative value, in the ten-category and in the eight-category variant.
\<close>

theorem C6_entries_nonnegative:
  assumes "nonNegativeInputs i"
    and "5 \<le> falsePositiveRate i" and "falsePositiveRate i \<le> 100"
  shows "list_all nonNegativeCategory
           (valueCategories (calculateValueMetrics (valueAnalysisProps i)))
    \<and> list_all nonNegativeCategory
           (valueCategories2 (calculateValueMetrics2 (valueAnalysisProps i)))"
  using assms by (simp add: categories_nonneg categories2_nonneg)

theorem C6_entries_nonnegative_witness:
  "nonNegativeInputs defaultInputs
   \<and> 5 \<le> falsePositiveRate defaultInputs
   \<and> falsePositiveRate defaultInputs \<le> 100
   \<and> list_all nonNegativeCategory
        (valueCategories (calculateValueMetrics (valueAnalysisProps defaultInputs)))
   \<and> list_all nonNegativeCategory
        (valueCategories2 (calculateValueMetrics2 (valueAnalysisProps defaultInputs)))"
proof -
  have rate: "5 \<le> falsePositiveRate defaultInputs" "falsePositiveRate defaultInputs \<le> 100"
    by (simp_all add: defaultInputs_fields)
  from C6_entries_nonnegative [OF defaultInputs_nonNegative rate]
    defaultInputs_nonNegative rate
  show ?thesis
    by blast
qed

text \<open>
  C8. Whenever the total value of the breakdown is positive, the percentage shares
  \<open>value / totalValue * 100\<close> of all categories are numbers and add up to 100, in the
  ten-category and in the eight-category variant.
\<close>

theorem C8_shares_sum_to_100:
  "(0 < totalValue (calculateValueMetrics (valueAnalysisProps i)) \<longrightarrow>
      sumDefined
        (percentageShares (totalValue (calculateValueMetrics (valueAnalysisProps i)))
          (valueCategories (calculateValueMetrics (valueAnalysisProps i)))) = Some 100)
   \<and> (0 < totalValue2 (calculateValueMetrics2 (valueAnalysisProps i)) \<longrightarrow>
      sumDefined
        (percentageShares (totalValue2 (calculateValueMetrics2 (valueAnalysisProps i)))
          (valueCategories2 (calculateValueMetrics2 (valueAnalysisProps i)))) = Some 100)"
  by (simp add: sum_shares categories_sum categories2_sum)

lemma default_total_positive:
  "0 < totalValue (calculateValueMetrics (valueAnalysisProps defaultInputs))"
  by (simp add: totalValue_def objectValues_def calculateValueMetrics_def Let_def
      props_inputs defaultInputs_fields)

lemma default_total2_positive:
  "0 < totalValue2 (calculateValueMetrics2 (valueAnalysisProps defaultInputs))"
  by (simp add: totalValue2_def objectValues2_def calculateValueMetrics2_def Let_def
      props_inputs defaultInputs_fields)

theorem C8_shares_sum_to_100_witness:
  "0 < totalValue (calculateValueMetrics (valueAnalysisProps defaultInputs))
   \<and> sumDefined
        (percentageShares (totalValue (calculateValueMetrics (valueAnalysisProps defaultInputs)))
          (valueCategories (calculateValueMetrics (valueAnalysisProps defaultInputs))))
       = Some 100
   \<and> 0 < totalValue2 (calculateValueMetrics2 (valueAnalysisProps defaultInputs))
   \<and> sumDefined
        (percentageShares
          (totalValue2 (calculateValueMetrics2 (valueAnalysisProps defaultInputs)))
          (valueCategories2 (calculateValueMetrics2 (valueAnalysisProps defaultInputs))))
       = Some 100"
  using C8_shares_sum_to_100 [of defaultInputs] default_total_positive default_total2_positive
  by blast

text \<open>
  C9. Two input records that differ only in \<open>switchFromLegacySIEM\<close> give the same result
  record and the same value-category breakdown, in both variants.
\<close>

theorem C9_switch_flag_unused:
  "calculateROI (i\<lparr>switchFromLegacySIEM := b\<rparr>) = calculateROI i
   \<and> valueCategories (calculateValueMetrics (valueAnalysisProps (i\<lparr>switchFromLegacySIEM := b\<rparr>)))
       = valueCategories (calculateValueMetrics (valueAnalysisProps i))
   \<and> valueCategories2
       (calculateValueMetrics2 (valueAnalysisProps (i\<lparr>switchFromLegacySIEM := b\<rparr>)))
       = valueCategories2 (calculateValueMetrics2 (valueAnalysisProps i))"
proof -
  have e: "calculateEfficiencyImprovement (i\<lparr>switchFromLegacySIEM := b\<rparr>)
      = calculateEfficiencyImprovement i"
    by (simp add: calculateEfficiencyImprovement_def)
  have q: "calculateIncidentResponseImprovement (i\<lparr>switchFromLegacySIEM := b\<rparr>)
      = calculateIncidentResponseImprovement i"
    by (simp add: calculateIncidentResponseImprovement_def)
  have a: "autonomousSOCAnnualCost (i\<lparr>switchFromLegacySIEM := b\<rparr>) = autonomousSOCAnnualCost i"
    by (simp add: autonomousSOCAnnualCost_def)
  have r: "calculateROI (i\<lparr>switchFromLegacySIEM := b\<rparr>) = calculateROI i"
    unfolding calculateROI_def e q a by simp
  have p: "valueAnalysisProps (i\<lparr>switchFromLegacySIEM := b\<rparr>) = valueAnalysisProps i"
    unfolding valueAnalysisProps_def r by simp
  show ?thesis
    unfolding r p by simp
qed

end
